theory Spec2Isabelle
  imports Main "HOL-Library.Sublist"
begin

section \<open>Python string primitives used by app.py\<close>

text \<open>
  A Python \<open>str\<close> is modelled as a \<open>string\<close>: one \<open>char\<close> per code point, for the
  code points below 256. \<open>isspace\<close> is \<open>str.isspace\<close> on one character in that range:
  the characters that \<open>str.strip()\<close> removes.
\<close>

definition isspace :: "char \<Rightarrow> bool" where
  "isspace c = ((of_char c :: nat) \<in> set [9, 10, 11, 12, 13, 28, 29, 30, 31, 32, 133, 160])"

text \<open>\<open>s.strip()\<close>: leading and trailing whitespace removed.\<close>

definition strip :: "string \<Rightarrow> string" where
  "strip s = rev (dropWhile isspace (rev (dropWhile isspace s)))"

text \<open>\<open>s.rstrip()\<close>: trailing whitespace removed.\<close>

definition rstrip :: "string \<Rightarrow> string" where
  "rstrip s = rev (dropWhile isspace (rev s))"

text \<open>\<open>s.split(sep)\<close> for a one-character separator: never an empty list.\<close>

fun split :: "char \<Rightarrow> string \<Rightarrow> string list" where
  "split sep [] = [[]]"
| "split sep (c # cs) =
     (if c = sep then [] # split sep cs
      else (case split sep cs of [] \<Rightarrow> [[c]] | w # ws \<Rightarrow> (c # w) # ws))"

text \<open>\<open>sep.join(xs)\<close>.\<close>

fun join :: "string \<Rightarrow> string list \<Rightarrow> string" where
  "join sep [] = []"
| "join sep [x] = x"
| "join sep (x # y # ys) = x @ sep @ join sep (y # ys)"

text \<open>\<open>str(n)\<close> for an integer: decimal digits, a minus sign when negative.\<close>

fun str_nat :: "nat \<Rightarrow> string" where
  "str_nat n =
     (if n < 10 then [''0123456789'' ! n]
      else str_nat (n div 10) @ [''0123456789'' ! (n mod 10)])"

declare str_nat.simps [simp del]

definition str_int :: "int \<Rightarrow> string" where
  "str_int i = (if i < 0 then ''-'' @ str_nat (nat (- i)) else str_nat (nat i))"


subsection \<open>The builtin \<open>float\<close> on a string\<close>

text \<open>
  \<open>build_where\<close> calls \<open>float(val)\<close> only to learn whether it raises, so the builtin
  enters the model as a parameter \<open>parse_float :: string \<Rightarrow> bool\<close> (True: the call
  returns). \<open>py_float\<close> is that predicate for the grammar of the language reference
  (\<open>floatvalue\<close>: optional sign, then \<open>inf\<close>, \<open>infinity\<close>, \<open>nan\<close> in any case, or
  decimal digits with single underscores between digits, an optional point and an
  optional exponent), after the whitespace around the number is removed. It is used
  where a statement is evaluated at a concrete value.
\<close>

definition isdigit :: "char \<Rightarrow> bool" where
  "isdigit c = (48 \<le> (of_char c :: nat) \<and> (of_char c :: nat) \<le> 57)"

fun digitpart :: "string \<Rightarrow> bool" where
  "digitpart [] = False"
| "digitpart [c] = isdigit c"
| "digitpart (c # d # cs) =
     (isdigit c \<and> (if d = CHR ''_'' then digitpart cs else digitpart (d # cs)))"

definition drop_sign :: "string \<Rightarrow> string" where
  "drop_sign s = (case s of [] \<Rightarrow> [] | c # cs \<Rightarrow> if c = CHR ''+'' \<or> c = CHR ''-'' then cs else s)"

definition lower :: "string \<Rightarrow> string" where
  "lower s = map (\<lambda>c. if 65 \<le> (of_char c :: nat) \<and> (of_char c :: nat) \<le> 90
                       then char_of ((of_char c :: nat) + 32) else c) s"

definition number :: "string \<Rightarrow> bool" where
  "number s =
     (let ip = takeWhile (\<lambda>c. c \<noteq> CHR ''.'') s; rest = dropWhile (\<lambda>c. c \<noteq> CHR ''.'') s
      in if rest = [] then digitpart ip
         else (let fp = tl rest
               in (ip = [] \<and> digitpart fp) \<or> (digitpart ip \<and> (fp = [] \<or> digitpart fp))))"

definition floatnumber :: "string \<Rightarrow> bool" where
  "floatnumber s =
     (let is_e = (\<lambda>c. c = CHR ''e'' \<or> c = CHR ''E'');
          m = takeWhile (\<lambda>c. \<not> is_e c) s; rest = dropWhile (\<lambda>c. \<not> is_e c) s
      in if rest = [] then number m
         else number m \<and> digitpart (drop_sign (tl rest)))"

definition float_space :: "char \<Rightarrow> bool" where
  "float_space c = ((of_char c :: nat) \<in> set [9, 10, 11, 12, 13, 32, 133, 160])"

definition py_float :: "string \<Rightarrow> bool" where
  "py_float s =
     (let t = rev (dropWhile float_space (rev (dropWhile float_space s)));
          u = drop_sign t
      in lower u \<in> set [''inf'', ''infinity'', ''nan''] \<or> floatnumber u)"

section \<open>The predicate compiler: \<open>build_where\<close>\<close>

text \<open>
  A filter is the triple \<open>(col, op, val)\<close> of the column name as it is printed, the
  operator and the text of the value field.
\<close>

type_synonym filter_triple = "string \<times> string \<times> string"

definition operators :: "string list" where
  "operators = [''='', ''!='', ''>'', ''>='', ''<'', ''<='', ''contains'', ''starts_with'',
                ''ends_with'', ''in (comma separated)'']"

text \<open>
  One pass of the loop body of \<open>build_where\<close>: \<open>None\<close> when nothing is appended to
  \<open>where_parts\<close> (the \<open>continue\<close>, or no branch of the \<open>if\<close>/\<open>elif\<close> chain taken),
  \<open>Some f\<close> when the fragment \<open>f\<close> is appended. The \<open>try\<close>/\<open>except\<close> around
  \<open>float(val)\<close> is the inner conditional.
\<close>

definition fragment :: "(string \<Rightarrow> bool) \<Rightarrow> filter_triple \<Rightarrow> string option" where
  \<open>fragment parse_float t =
     (case t of (col, op, val) \<Rightarrow>
        if val = [] \<or> strip val = [] then None
        else
          (let col_sql = ''"'' @ col @ ''"'' in
           if op \<in> set [''='', ''!='', ''>'', ''>='', ''<'', ''<=''] then
             (if parse_float val
              then Some (''CAST('' @ col_sql @ '' AS DOUBLE) '' @ op @ '' '' @ val)
              else Some (''CAST('' @ col_sql @ '' AS VARCHAR) '' @ op @ '' '' @
                         [CHR 0x27] @ val @ [CHR 0x27]))
           else if op = ''contains'' then
             Some (''CAST('' @ col_sql @ '' AS VARCHAR) ILIKE '' @
                   [CHR 0x27] @ ''%'' @ val @ ''%'' @ [CHR 0x27])
           else if op = ''starts_with'' then
             Some (''CAST('' @ col_sql @ '' AS VARCHAR) ILIKE '' @
                   [CHR 0x27] @ val @ ''%'' @ [CHR 0x27])
           else if op = ''ends_with'' then
             Some (''CAST('' @ col_sql @ '' AS VARCHAR) ILIKE '' @
                   [CHR 0x27] @ ''%'' @ val @ [CHR 0x27])
           else if op = ''in (comma separated)'' then
             (let items = map strip (filter (\<lambda>x. strip x \<noteq> []) (split CHR '','' val));
                  quoted = join '','' (map (\<lambda>x. [CHR 0x27] @ x @ [CHR 0x27]) items)
              in Some (''CAST('' @ col_sql @ '' AS VARCHAR) IN ('' @ quoted @ '')''))
           else None))\<close>

text \<open>The \<open>for\<close> loop over \<open>filters\<close>, with \<open>where_parts\<close> as the accumulator.\<close>

fun where_parts_loop ::
  "(string \<Rightarrow> bool) \<Rightarrow> filter_triple list \<Rightarrow> string list \<Rightarrow> string list" where
  "where_parts_loop parse_float [] where_parts = where_parts"
| "where_parts_loop parse_float (t # ts) where_parts =
     where_parts_loop parse_float ts
       (case fragment parse_float t of None \<Rightarrow> where_parts | Some f \<Rightarrow> where_parts @ [f])"

definition build_where :: "(string \<Rightarrow> bool) \<Rightarrow> filter_triple list \<Rightarrow> string" where
  "build_where parse_float filters = join '' AND '' (where_parts_loop parse_float filters [])"

text \<open>
  The two shapes of a comparison fragment, in the words of the specification: the column
  cast to a numeric type and compared with the value as a numeric literal, and the column
  cast to text and compared with the value between single quotes.
\<close>

definition numeric_comparison :: "string \<Rightarrow> string \<Rightarrow> string \<Rightarrow> string" where
  \<open>numeric_comparison col op val = ''CAST("'' @ col @ ''" AS DOUBLE) '' @ op @ '' '' @ val\<close>

definition text_comparison :: "string \<Rightarrow> string \<Rightarrow> string \<Rightarrow> string" where
  \<open>text_comparison col op val =
     ''CAST("'' @ col @ ''" AS VARCHAR) '' @ op @ '' '' @ [CHR 0x27] @ val @ [CHR 0x27]\<close>

text \<open>
  The items of an \<open>in (comma separated)\<close> value, in the words of the specification:
  split the value on commas, trim whitespace from each item, drop the empty items.
  (The source filters on \<open>x.strip()\<close> first and trims afterwards.)
\<close>

definition in_items_spec :: "string \<Rightarrow> string list" where
  "in_items_spec val = filter (\<lambda>x. x \<noteq> []) (map strip (split CHR '','' val))"

text \<open>
  A schema-checking compiler, in the words of the specification: a column reference
  used in the compiled predicate must be a column of the table, else the query is
  rejected (\<open>None\<close>). It is compared with \<open>build_where\<close>, which takes no schema.
\<close>

definition build_where_checked ::
  "string list \<Rightarrow> (string \<Rightarrow> bool) \<Rightarrow> filter_triple list \<Rightarrow> string option" where
  "build_where_checked cols parse_float filters =
     (if list_all (\<lambda>t. fragment parse_float t = None \<or> fst t \<in> set cols) filters
      then Some (build_where parse_float filters) else None)"

section \<open>The query assembler\<close>

definition where_sql :: "string \<Rightarrow> string" where
  "where_sql where_clause = (if where_clause \<noteq> [] then ''WHERE '' @ where_clause else [])"

definition select_sql :: "string \<Rightarrow> string" where
  "select_sql metric = (if metric = ''Show rows'' then ''*'' else ''COUNT(*) AS row_count'')"

definition group_sql :: "string list \<Rightarrow> string" where
  \<open>group_sql group_by =
     (if group_by \<noteq> [] then ''GROUP BY '' @ join '', '' (map (\<lambda>c. ''"'' @ c @ ''"'') group_by)
      else [])\<close>

text \<open>
  The text \<open>sql_preview\<close> of the script, as a function of the widgets' values:
  \<open>metric\<close>, \<open>filters\<close>, \<open>group_by\<close> and \<open>limit\<close>.
\<close>

definition sql_preview ::
  "(string \<Rightarrow> bool) \<Rightarrow> string \<Rightarrow> filter_triple list \<Rightarrow> string list \<Rightarrow> int \<Rightarrow> string" where
  "sql_preview parse_float metric filters group_by limit =
     ''\<newline>SELECT '' @ select_sql metric @
     ''\<newline>FROM data\<newline>'' @ where_sql (build_where parse_float filters) @
     ''\<newline>'' @ group_sql group_by @
     ''\<newline>LIMIT '' @ str_int limit @ '';\<newline>''"

text \<open>
  The bounds of the \<open>Limit\<close> widget, \<open>st.number_input(min_value=1, max_value=100000)\<close>:
  the value the widget returns lies between them.
\<close>

definition limit_min_value :: int where
  "limit_min_value = 1"

definition limit_max_value :: int where
  "limit_max_value = 100000"

text \<open>
  A query text ends with the row limit \<open>n\<close>: its last clause, before the trailing
  whitespace of the template, is \<open>LIMIT n;\<close>.
\<close>

definition has_limit :: "string \<Rightarrow> nat \<Rightarrow> bool" where
  "has_limit sql n = suffix (''LIMIT '' @ str_nat n @ '';'') (rstrip sql)"

section \<open>The presets\<close>






datatype preset =
    Top_10_failing_domains
  | Top_failure_reasons
  | Top_SMTP_codes
  | Top_users_by_failures
  | Failures_by_day
  | Lowest_success_rate_domains
  | Highest_recipients_among_low_deliverability

text \<open>The presets offered for a sheet.\<close>

definition presets_of_sheet :: "string \<Rightarrow> preset list" where
  "presets_of_sheet sheet =
     (if sheet = ''Failure Details'' then
        [Top_10_failing_domains, Top_failure_reasons, Top_SMTP_codes, Top_users_by_failures,
         Failures_by_day]
      else if sheet = ''Domains w Lower Deliverability'' then
        [Lowest_success_rate_domains, Highest_recipients_among_low_deliverability]
      else [])"


section \<open>Properties of the string primitives\<close>

lemma strip_Nil_iff: "strip s = [] \<longleftrightarrow> (\<forall>c\<in>set s. isspace c)"
proof -
  have "strip s = [] \<longleftrightarrow> (\<forall>c\<in>set (dropWhile isspace s). isspace c)"
    by (simp add: strip_def)
  also have "\<dots> \<longleftrightarrow> dropWhile isspace s = []"
  proof
    assume all: "\<forall>c\<in>set (dropWhile isspace s). isspace c"
    show "dropWhile isspace s = []"
    proof (rule ccontr)
      assume ne: "dropWhile isspace s \<noteq> []"
      then have "\<not> isspace (hd (dropWhile isspace s))"
        by (rule hd_dropWhile)
      moreover have "hd (dropWhile isspace s) \<in> set (dropWhile isspace s)"
        using ne by simp
      ultimately show False using all by blast
    qed
  next
    assume e: "dropWhile isspace s = []"
    show "\<forall>c\<in>set (dropWhile isspace s). isspace c"
      unfolding e by simp
  qed
  also have "\<dots> \<longleftrightarrow> (\<forall>c\<in>set s. isspace c)"
    by simp
  finally show ?thesis .
qed

lemma where_parts_loop_eq:
  "where_parts_loop pf ts wp = wp @ List.map_filter (fragment pf) ts"
  by (induction ts arbitrary: wp) (simp_all split: option.splits)

lemma build_where_skip:
  assumes "fragment pf t = None"
  shows "build_where pf (xs @ t # ys) = build_where pf (xs @ ys)"
  using assms by (simp add: build_where_def where_parts_loop_eq List.map_filter_def)

lemma fragment_blank:
  assumes "\<forall>c\<in>set val. isspace c"
  shows "fragment pf (col, op, val) = None"
  using assms by (simp add: fragment_def strip_Nil_iff)

lemma fragment_unknown_operator:
  assumes "op \<notin> set operators"
  shows "fragment pf (col, op, val) = None"
  using assms by (simp add: fragment_def operators_def Let_def)

section \<open>Properties of the predicate compiler\<close>

text \<open>
  C2. A filter whose value is empty or consists of whitespace only does not change the
  compiled predicate: compiling a list that contains it, at any position and among any
  other filters, gives the predicate of the list without it.
\<close>

theorem blank_value_is_omitted:
  assumes "\<forall>c\<in>set val. isspace c"
  shows "build_where pf (xs @ (col, op, val) # ys) = build_where pf (xs @ ys)"
  using assms by (intro build_where_skip fragment_blank)

theorem blank_value_is_omitted_witness:
  \<open>list_all isspace '' \<newline> '' \<and>
   build_where py_float ([(''A'', ''='', ''5'')] @ (''B'', ''contains'', '' \<newline> '') # [(''C'', ''<'', ''x'')])
     = build_where py_float ([(''A'', ''='', ''5'')] @ [(''C'', ''<'', ''x'')]) \<and>
   build_where py_float ([(''A'', ''='', ''5'')] @ [(''C'', ''<'', ''x'')])
     = ''CAST("A" AS DOUBLE) = 5 AND CAST("C" AS VARCHAR) < '' @ [CHR 0x27] @ ''x'' @ [CHR 0x27]\<close>
proof -
  have h: "\<forall>c\<in>set '' \<newline> ''. isspace c"
    by (simp add: isspace_def)
  have e: "build_where py_float ([(''A'', ''='', ''5'')] @ [(''C'', ''<'', ''x'')])
     = ''CAST(\"A\" AS DOUBLE) = 5 AND CAST(\"C\" AS VARCHAR) < '' @ [CHR 0x27] @ ''x'' @ [CHR 0x27]"
    by code_simp
  show ?thesis
    using h e blank_value_is_omitted [OF h, of py_float "[(''A'', ''='', ''5'')]" "''B''" "''contains''" "[(''C'', ''<'', ''x'')]"]
    by (simp add: list_all_iff)
qed

text \<open>
  C10. A filter whose operator is not one of the ten operators of the builder is skipped
  without an error, whatever its value: no fragment is appended for it, and the compiled
  predicate is the one of the list without it, as for an empty value.
\<close>

theorem unknown_operator_is_skipped:
  assumes "op \<notin> set operators"
  shows "fragment pf (col, op, val) = None \<and>
         build_where pf (xs @ (col, op, val) # ys) = build_where pf (xs @ ys) \<and>
         build_where pf (xs @ (col, op, val) # ys) = build_where pf (xs @ (col, op, []) # ys)"
proof -
  have 1: "fragment pf (col, op, val) = None"
    using assms by (rule fragment_unknown_operator)
  have 2: "fragment pf (col, op, []) = None"
    by (rule fragment_blank) simp
  show ?thesis
    using 1 build_where_skip [OF 1] build_where_skip [OF 2] by simp
qed

theorem unknown_operator_is_skipped_witness:
  \<open>''like'' \<notin> set operators \<and>
   fragment py_float (''B'', ''like'', ''x%'') = None \<and>
   build_where py_float ([(''A'', ''='', ''5'')] @ (''B'', ''like'', ''x%'') # []) =
     ''CAST("A" AS DOUBLE) = 5''\<close>
proof -
  have h: "''like'' \<notin> set operators"
    by (simp add: operators_def)
  have e: "build_where py_float ([(''A'', ''='', ''5'')] @ []) = ''CAST(\"A\" AS DOUBLE) = 5''"
    by code_simp
  show ?thesis
    using h e unknown_operator_is_skipped [OF h, of py_float "''B''" "''x%''" "[(''A'', ''='', ''5'')]" "[]"]
    by simp
qed

lemma build_where_single:
  "build_where pf [t] = (case fragment pf t of None \<Rightarrow> [] | Some f \<Rightarrow> f)"
  by (simp add: build_where_def split: option.splits)

lemma numeric_text_distinct: "numeric_comparison col op val \<noteq> text_comparison col op' val'"
  by (simp add: numeric_comparison_def text_comparison_def)

lemma fragment_comparison:
  assumes "op \<in> set [''='', ''!='', ''>'', ''>='', ''<'', ''<='']" and "\<not> list_all isspace val"
  shows "fragment pf (col, op, val) =
           Some (if pf val then numeric_comparison col op val else text_comparison col op val)"
proof -
  have "val \<noteq> []" "strip val \<noteq> []"
    using assms(2) by (auto simp: strip_Nil_iff list_all_iff)
  then show ?thesis
    using assms(1) by (simp add: fragment_def numeric_comparison_def text_comparison_def)
qed

text \<open>
  C1. For a filter with one of the six equality and ordering operators whose value is
  compiled at all (it is not blank), the predicate is the numeric comparison exactly
  when \<open>float(val)\<close> returns, and the text comparison exactly when it raises; the
  compiler itself returns in both cases, and the fragment it appends for the filter,
  in any list of filters, is that comparison.
\<close>

theorem comparison_numeric_iff_float:
  assumes "op \<in> set [''='', ''!='', ''>'', ''>='', ''<'', ''<='']" and "\<not> list_all isspace val"
  shows "(build_where pf [(col, op, val)] = numeric_comparison col op val \<longleftrightarrow> pf val) \<and>
         (build_where pf [(col, op, val)] = text_comparison col op val \<longleftrightarrow> \<not> pf val) \<and>
         fragment pf (col, op, val) =
           Some (if pf val then numeric_comparison col op val else text_comparison col op val)"
  using numeric_text_distinct [of col op val op val]
  by (auto simp: build_where_single fragment_comparison [OF assms])

theorem comparison_numeric_iff_float_witness:
  \<open>''>='' \<in> set [''='', ''!='', ''>'', ''>='', ''<'', ''<=''] \<and> \<not> list_all isspace ''2.5'' \<and>
   \<not> list_all isspace ''abc'' \<and> py_float ''2.5'' \<and> \<not> py_float ''abc'' \<and>
   build_where py_float [(''Rate'', ''>='', ''2.5'')] = ''CAST("Rate" AS DOUBLE) >= 2.5'' \<and>
   build_where py_float [(''Rate'', ''>='', ''abc'')] =
     ''CAST("Rate" AS VARCHAR) >= '' @ [CHR 0x27] @ ''abc'' @ [CHR 0x27]\<close>
proof -
  have o: "''>='' \<in> set [''='', ''!='', ''>'', ''>='', ''<'', ''<='']" by simp
  have v1: "\<not> list_all isspace ''2.5''" by (simp add: isspace_def)
  have v2: "\<not> list_all isspace ''abc''" by (simp add: isspace_def)
  have f1: "py_float ''2.5''" by code_simp
  have f2: "\<not> py_float ''abc''" by code_simp
  show ?thesis
    using o v1 v2 f1 f2
      comparison_numeric_iff_float [OF o v1, of py_float "''Rate''"]
      comparison_numeric_iff_float [OF o v2, of py_float "''Rate''"]
    by (simp add: numeric_comparison_def text_comparison_def)
qed

lemma build_where_all_skipped:
  assumes "\<forall>t\<in>set filters. fragment pf t = None"
  shows "build_where pf filters = []"
proof -
  have "List.map_filter (fragment pf) filters = []"
    using assms by (induction filters) simp_all
  then show ?thesis
    by (simp add: build_where_def where_parts_loop_eq)
qed

text \<open>
  C5. When there is no filter, or every filter has an empty or whitespace-only value, the
  compiled predicate is empty, \<open>where_sql\<close> is empty, and the assembled query has an
  empty line where the WHERE clause would stand: projection, grouping and limit only.
\<close>

theorem no_surviving_filter_no_where:
  assumes "\<forall>t\<in>set filters. list_all isspace (snd (snd t))"
  shows "build_where pf filters = [] \<and>
         where_sql (build_where pf filters) = [] \<and>
         sql_preview pf metric filters group_by limit =
           ''\<newline>SELECT '' @ select_sql metric @ ''\<newline>FROM data\<newline>\<newline>'' @
           group_sql group_by @ ''\<newline>LIMIT '' @ str_int limit @ '';\<newline>''"
proof -
  have "\<forall>t\<in>set filters. fragment pf t = None"
  proof
    fix t assume "t \<in> set filters"
    then have "\<forall>c\<in>set (snd (snd t)). isspace c"
      using assms by (simp add: list_all_iff)
    then have "fragment pf (fst t, fst (snd t), snd (snd t)) = None"
      by (rule fragment_blank)
    then show "fragment pf t = None" by simp
  qed
  then have "build_where pf filters = []"
    by (rule build_where_all_skipped)
  then show ?thesis
    by (simp add: where_sql_def sql_preview_def)
qed

theorem no_surviving_filter_no_where_witness:
  "build_where py_float [] = [] \<and>
   sql_preview py_float ''Show rows'' [] [] 1000 =
     ''\<newline>SELECT *\<newline>FROM data\<newline>\<newline>\<newline>LIMIT 1000;\<newline>'' \<and>
   list_all (\<lambda>t. list_all isspace (snd (snd t))) [(''A'', ''='', ''  ''), (''B'', ''contains'', '''')] \<and>
   where_sql (build_where py_float [(''A'', ''='', ''  ''), (''B'', ''contains'', '''')]) = [] \<and>
   sql_preview py_float ''Count rows'' [(''A'', ''='', ''  ''), (''B'', ''contains'', '''')] [] 50 =
     ''\<newline>SELECT COUNT(*) AS row_count\<newline>FROM data\<newline>\<newline>\<newline>LIMIT 50;\<newline>''"
proof -
  have h0: "\<forall>t\<in>set ([] :: filter_triple list). list_all isspace (snd (snd t))"
    by simp
  have h1: "\<forall>t\<in>set [(''A'', ''='', ''  ''), (''B'', ''contains'', '''')]. list_all isspace (snd (snd t))"
    by (simp add: isspace_def)
  show ?thesis
    using h1
      no_surviving_filter_no_where [OF h0, of py_float "''Show rows''" "[]" 1000]
      no_surviving_filter_no_where [OF h1, of py_float "''Count rows''" "[]" 50]
    by (simp add: select_sql_def group_sql_def where_sql_def str_int_def str_nat.simps list_all_iff)
qed

lemma split_not_Nil: "split sep s \<noteq> []"
  by (induction s) (simp_all split: list.splits)

lemma split_chars: "x \<in> set (split sep s) \<Longrightarrow> set x \<subseteq> set s - {sep}"
proof (induction s arbitrary: x)
  case Nil
  then show ?case by simp
next
  case (Cons c cs)
  show ?case
  proof (cases "c = sep")
    case True
    with Cons show ?thesis by auto
  next
    case False
    obtain w ws where sp: "split sep cs = w # ws"
      using split_not_Nil [of sep cs] by (cases "split sep cs") auto
    from Cons.prems False sp have "x = c # w \<or> x \<in> set ws"
      by simp
    then show ?thesis
    proof
      assume "x = c # w"
      moreover have "set w \<subseteq> set cs - {sep}"
        using Cons.IH [of w] sp by simp
      ultimately show ?thesis using False by auto
    next
      assume "x \<in> set ws"
      then have "set x \<subseteq> set cs - {sep}"
        using Cons.IH [of x] sp by simp
      then show ?thesis by auto
    qed
  qed
qed

lemma strip_chars: "set (strip s) \<subseteq> set s"
proof -
  have "set (strip s) \<subseteq> set (dropWhile isspace s)"
    unfolding strip_def using set_dropWhileD by fastforce
  also have "\<dots> \<subseteq> set s"
    using set_dropWhileD by fastforce
  finally show ?thesis .
qed

lemma last_dropWhile: "dropWhile P xs \<noteq> [] \<Longrightarrow> last (dropWhile P xs) = last xs"
  by (induction xs) (auto split: if_splits)

lemma strip_ends:
  assumes "strip s \<noteq> []"
  shows "\<not> isspace (hd (strip s)) \<and> \<not> isspace (last (strip s))"
proof -
  let ?t = "dropWhile isspace s"
  let ?u = "dropWhile isspace (rev ?t)"
  have u: "?u \<noteq> []" using assms by (simp add: strip_def del: dropWhile_eq_Nil_conv)
  have t: "?t \<noteq> []"
  proof
    assume "?t = []"
    then have "?u = []" by (metis dropWhile.simps(1) rev.simps(1))
    with u show False by contradiction
  qed
  have "last (strip s) = hd ?u"
    using u by (simp add: strip_def last_rev del: dropWhile_eq_Nil_conv)
  moreover have "\<not> isspace (hd ?u)"
    using u by (rule hd_dropWhile)
  moreover have "hd (strip s) = last ?u"
    using u by (simp add: strip_def hd_rev del: dropWhile_eq_Nil_conv)
  moreover have "last ?u = last (rev ?t)"
    using u by (rule last_dropWhile)
  moreover have "last (rev ?t) = hd ?t"
    using t by (simp add: last_rev del: dropWhile_eq_Nil_conv)
  moreover have "\<not> isspace (hd ?t)"
    using t by (rule hd_dropWhile)
  ultimately show ?thesis by simp
qed

lemma items_code_eq_spec:
  "map strip (filter (\<lambda>x. strip x \<noteq> []) (split CHR '','' val)) = in_items_spec val"
  by (simp add: in_items_spec_def filter_map comp_def)

lemma not_blank_iff: "\<not> list_all isspace x \<longleftrightarrow> strip x \<noteq> []"
  by (simp add: strip_Nil_iff list_all_iff)

text \<open>
  C3. For the operator \<open>in (comma separated)\<close> and a value with at least one
  comma-separated item that is not blank, the predicate is the membership test of the
  text-cast column in the list of the items, each between single quotes: the items got by
  splitting the value on commas, trimming each and dropping the empty ones. The list is
  not empty, its items are those of the non-blank pieces, and each item is non-empty,
  has no whitespace at either end and contains no comma.
\<close>

theorem in_list_membership:
  assumes "\<exists>x\<in>set (split CHR '','' val). \<not> list_all isspace x"
  shows \<open>build_where pf [(col, ''in (comma separated)'', val)] =
           ''CAST("'' @ col @ ''" AS VARCHAR) IN ('' @
           join '','' (map (\<lambda>x. [CHR 0x27] @ x @ [CHR 0x27]) (in_items_spec val)) @ '')'' \<and>
         in_items_spec val \<noteq> [] \<and>
         set (in_items_spec val) =
           {strip x | x. x \<in> set (split CHR '','' val) \<and> \<not> list_all isspace x} \<and>
         (\<forall>i\<in>set (in_items_spec val).
            i \<noteq> [] \<and> \<not> isspace (hd i) \<and> \<not> isspace (last i) \<and> CHR '','' \<notin> set i)\<close>
proof -
  obtain x where x: "x \<in> set (split CHR '','' val)" "strip x \<noteq> []"
    using assms by (auto simp: not_blank_iff)
  then obtain c where c: "c \<in> set x" "\<not> isspace c"
    by (auto simp: strip_Nil_iff)
  have "c \<in> set val"
    using split_chars [OF x(1)] c(1) by auto
  then have val: "val \<noteq> []" "strip val \<noteq> []"
    using c(2) by (auto simp: strip_Nil_iff)
  have frag: \<open>fragment pf (col, ''in (comma separated)'', val) =
      Some (''CAST("'' @ col @ ''" AS VARCHAR) IN ('' @
           join '','' (map (\<lambda>x. [CHR 0x27] @ x @ [CHR 0x27]) (in_items_spec val)) @ '')'')\<close>
    using val by (simp add: fragment_def items_code_eq_spec)
  have set_eq: "set (in_items_spec val) =
           {strip x | x. x \<in> set (split CHR '','' val) \<and> \<not> list_all isspace x}"
    by (auto simp: in_items_spec_def not_blank_iff)
  have ne: "in_items_spec val \<noteq> []"
  proof -
    have "strip x \<in> set (in_items_spec val)"
      using x by (simp add: in_items_spec_def)
    then show ?thesis by auto
  qed
  have each: "\<forall>i\<in>set (in_items_spec val).
            i \<noteq> [] \<and> \<not> isspace (hd i) \<and> \<not> isspace (last i) \<and> CHR '','' \<notin> set i"
  proof
    fix i assume "i \<in> set (in_items_spec val)"
    then obtain y where y: "y \<in> set (split CHR '','' val)" "i = strip y" "strip y \<noteq> []"
      by (auto simp: in_items_spec_def)
    have "set i \<subseteq> set y" using y(2) strip_chars by simp
    moreover have "CHR '','' \<notin> set y" using split_chars [OF y(1)] by auto
    ultimately have "CHR '','' \<notin> set i" by auto
    then show "i \<noteq> [] \<and> \<not> isspace (hd i) \<and> \<not> isspace (last i) \<and> CHR '','' \<notin> set i"
      using strip_ends [OF y(3)] y(2,3) by simp
  qed
  show ?thesis
    using frag set_eq ne each by (simp add: build_where_single)
qed

theorem in_list_membership_witness:
  \<open>list_ex (\<lambda>x. \<not> list_all isspace x) (split CHR '','' ''a, b ,c'') \<and>
   in_items_spec ''a, b ,c'' = [''a'', ''b'', ''c''] \<and>
   build_where py_float [(''Name'', ''in (comma separated)'', ''a, b ,c'')] =
     ''CAST("Name" AS VARCHAR) IN ('' @ [CHR 0x27] @ ''a'' @ [CHR 0x27] @ '','' @
       [CHR 0x27] @ ''b'' @ [CHR 0x27] @ '','' @ [CHR 0x27] @ ''c'' @ [CHR 0x27] @ '')''\<close>
proof -
  have sp: "split CHR '','' ''a, b ,c'' = [''a'', '' b '', ''c'']"
    by simp
  have h: "\<exists>x\<in>set (split CHR '','' ''a, b ,c''). \<not> list_all isspace x"
    unfolding sp by (simp add: isspace_def)
  have it: "in_items_spec ''a, b ,c'' = [''a'', ''b'', ''c'']"
    unfolding in_items_spec_def sp by (simp add: strip_def isspace_def)
  show ?thesis
    using h in_list_membership [OF h, of py_float "''Name''"]
    unfolding it by (simp add: list_ex_iff)
qed

text \<open>
  C4. The value \<open>" , "\<close> is not blank (its strip is the comma), so the filter is
  compiled, and both of its items are blank: the fragment is a membership test in the
  empty list, written \<open>IN ()\<close>, and this is the text that the query carries.
\<close>

theorem empty_in_list_fragment:
  \<open>build_where py_float [(''Name'', ''in (comma separated)'', '' , '')] =
     ''CAST("Name" AS VARCHAR) IN ()'' \<and>
   sql_preview py_float ''Show rows'' [(''Name'', ''in (comma separated)'', '' , '')] [] 1000 =
     ''\<newline>SELECT *\<newline>FROM data\<newline>WHERE CAST("Name" AS VARCHAR) IN ()\<newline>\<newline>LIMIT 1000;\<newline>''\<close>
proof -
  have sp: "split CHR '','' '' , '' = ['' '', '' '']"
    by simp
  have st: "strip '' , '' = '',''" "strip '' '' = []"
    by (simp_all add: strip_def isspace_def)
  have b: \<open>build_where py_float [(''Name'', ''in (comma separated)'', '' , '')] =
     ''CAST("Name" AS VARCHAR) IN ()''\<close>
    by (simp add: build_where_single fragment_def sp st)
  show ?thesis
    using b
    by (simp add: sql_preview_def select_sql_def where_sql_def group_sql_def str_int_def
        str_nat.simps)
qed

lemma fragment_names_column:
  assumes "fragment pf (col, op, val) = Some f"
  shows \<open>prefix (''CAST("'' @ col @ ''" AS '') f\<close>
  using assms by (auto simp: fragment_def Let_def split: if_splits)

lemma fragment_Some_iff:
  "fragment pf t \<noteq> None \<longleftrightarrow>
     \<not> list_all isspace (snd (snd t)) \<and> fst (snd t) \<in> set operators"
proof -
  obtain col op val where t: "t = (col, op, val)"
    by (cases t) auto
  have blank: "(val = [] \<or> strip val = []) \<longleftrightarrow> list_all isspace val"
    by (auto simp: strip_Nil_iff list_all_iff)
  show ?thesis
    unfolding t fragment_def using blank by (auto simp: operators_def Let_def)
qed

lemma length_map_filter:
  "length (List.map_filter f xs) = length (filter (\<lambda>x. f x \<noteq> None) xs)"
  by (simp add: List.map_filter_def)

text \<open>
  C6 (as amended). \<open>build_where\<close> takes no schema and checks no column. A filter is
  compiled exactly when its value is not blank and its operator is one of the ten,
  whatever its column name, and its fragment starts with the cast of that name as given,
  between double quotes. The predicate is the join of the fragments of all such filters,
  one per filter, so no query is rejected. The schema-checking compiler rejects exactly
  when such a filter names a column outside the table; when every filter's column is a
  column of the table, as the column selectboxes of the page ensure, it accepts and
  returns the result of \<open>build_where\<close>.
\<close>

theorem build_where_checks_no_column:
  \<open>(fragment pf (col, op, val) \<noteq> None \<longleftrightarrow> \<not> list_all isspace val \<and> op \<in> set operators) \<and>
   (\<forall>f. fragment pf (col, op, val) = Some f \<longrightarrow> prefix (''CAST("'' @ col @ ''" AS '') f) \<and>
   build_where pf filters = join '' AND '' (List.map_filter (fragment pf) filters) \<and>
   length (List.map_filter (fragment pf) filters) =
     length (filter (\<lambda>t. \<not> list_all isspace (snd (snd t)) \<and> fst (snd t) \<in> set operators) filters) \<and>
   (build_where_checked cols pf filters = None \<longleftrightarrow>
      (\<exists>t\<in>set filters. \<not> list_all isspace (snd (snd t)) \<and> fst (snd t) \<in> set operators \<and>
         fst t \<notin> set cols)) \<and>
   ((\<forall>t\<in>set filters. fst t \<in> set cols) \<longrightarrow>
      build_where_checked cols pf filters = Some (build_where pf filters))\<close>
proof -
  have 1: "fragment pf (col, op, val) \<noteq> None \<longleftrightarrow> \<not> list_all isspace val \<and> op \<in> set operators"
    using fragment_Some_iff [of pf "(col, op, val)"] by simp
  have 2: "\<forall>f. fragment pf (col, op, val) = Some f \<longrightarrow> prefix (''CAST(\"'' @ col @ ''\" AS '') f"
    using fragment_names_column [of pf col op val] by blast
  have 3: "build_where pf filters = join '' AND '' (List.map_filter (fragment pf) filters)"
    by (simp add: build_where_def where_parts_loop_eq)
  have 4: "length (List.map_filter (fragment pf) filters) =
     length (filter (\<lambda>t. \<not> list_all isspace (snd (snd t)) \<and> fst (snd t) \<in> set operators) filters)"
    by (simp only: length_map_filter fragment_Some_iff)
  have 5: "build_where_checked cols pf filters = None \<longleftrightarrow>
      (\<exists>t\<in>set filters. \<not> list_all isspace (snd (snd t)) \<and> fst (snd t) \<in> set operators \<and>
         fst t \<notin> set cols)"
  proof -
    have "build_where_checked cols pf filters = None \<longleftrightarrow>
        (\<exists>t\<in>set filters. fragment pf t \<noteq> None \<and> fst t \<notin> set cols)"
      by (auto simp: build_where_checked_def list_all_iff)
    then show ?thesis
      by (simp only: fragment_Some_iff conj_assoc)
  qed
  have 6: "(\<forall>t\<in>set filters. fst t \<in> set cols) \<longrightarrow>
      build_where_checked cols pf filters = Some (build_where pf filters)"
    by (simp add: build_where_checked_def list_all_iff)
  show ?thesis
    using 1 2 3 4 5 6 by blast
qed

theorem build_where_checks_no_column_witness:
  \<open>''Ghost'' \<notin> set [''A'', ''B''] \<and> \<not> list_all isspace ''x'' \<and> ''contains'' \<in> set operators \<and>
   fragment py_float (''Ghost'', ''contains'', ''x'') \<noteq> None \<and>
   build_where py_float [(''A'', ''='', ''5''), (''Ghost'', ''contains'', ''x''), (''B'', ''<'', '' '')] =
     ''CAST("A" AS DOUBLE) = 5 AND CAST("Ghost" AS VARCHAR) ILIKE '' @ [CHR 0x27] @ ''%x%'' @ [CHR 0x27] \<and>
   length (List.map_filter (fragment py_float)
     [(''A'', ''='', ''5''), (''Ghost'', ''contains'', ''x''), (''B'', ''<'', '' '')]) = 2 \<and>
   build_where_checked [''A'', ''B''] py_float
     [(''A'', ''='', ''5''), (''Ghost'', ''contains'', ''x''), (''B'', ''<'', '' '')] = None\<close>
proof -
  have c: "''Ghost'' \<notin> set [''A'', ''B'']" by simp
  have v: "\<not> list_all isspace ''x''" "list_all isspace '' ''" "\<not> list_all isspace ''5''"
    by (simp_all add: isspace_def)
  have o: "''contains'' \<in> set operators" "''='' \<in> set operators" "''<'' \<in> set operators"
    by (simp_all add: operators_def)
  have e: \<open>join '' AND '' (List.map_filter (fragment py_float)
       [(''A'', ''='', ''5''), (''Ghost'', ''contains'', ''x''), (''B'', ''<'', '' '')]) =
     ''CAST("A" AS DOUBLE) = 5 AND CAST("Ghost" AS VARCHAR) ILIKE '' @ [CHR 0x27] @ ''%x%'' @ [CHR 0x27]\<close>
    by code_simp
  show ?thesis
    using c v o e
      build_where_checks_no_column [of py_float "''Ghost''" "''contains''" "''x''"
        "[(''A'', ''='', ''5''), (''Ghost'', ''contains'', ''x''), (''B'', ''<'', '' '')]"
        "[''A'', ''B'']"]
    by simp
qed

text \<open>
  C6 (as stated) fails: a filter on a column that the table does not have is compiled
  like any other, where the schema-checking compiler rejects the query.
\<close>

theorem unknown_column_is_compiled:
  \<open>''Nope'' \<notin> set [''A'', ''B''] \<and>
   build_where py_float [(''Nope'', ''='', ''1'')] = ''CAST("Nope" AS DOUBLE) = 1'' \<and>
   build_where_checked [''A'', ''B''] py_float [(''Nope'', ''='', ''1'')] = None\<close>
  by code_simp


section \<open>Properties of the query assembler\<close>

lemma rstrip_trailing:
  assumes "\<forall>c\<in>set ws. isspace c" and "\<not> isspace c"
  shows "rstrip (xs @ c # ws) = xs @ [c]"
proof -
  have "dropWhile isspace (rev ws @ c # rev xs) = dropWhile isspace (c # rev xs)"
    using assms(1) by (intro dropWhile_append2) simp
  then show ?thesis
    using assms(2) by (simp add: rstrip_def)
qed

lemma semicolon_not_space: "\<not> isspace CHR '';''"
  by (simp add: isspace_def)

lemma has_limit_intro:
  assumes "sql = pre @ ''LIMIT '' @ str_nat n @ '';'' @ ws" and "\<forall>c\<in>set ws. isspace c"
  shows "has_limit sql n"
proof -
  have "rstrip ((pre @ ''LIMIT '' @ str_nat n) @ CHR '';'' # ws) = (pre @ ''LIMIT '' @ str_nat n) @ '';''"
    by (rule rstrip_trailing [OF assms(2) semicolon_not_space])
  then have "rstrip sql = pre @ (''LIMIT '' @ str_nat n @ '';'')"
    by (simp add: assms(1))
  then show ?thesis
    unfolding has_limit_def by (metis suffixI)
qed

text \<open>
  C9. For every metric, list of filters and grouping, the assembled query ends with the
  clause \<open>LIMIT n;\<close>, where \<open>n\<close> is the value of the Limit widget: a positive integer
  between 1 and 100000, the bounds of the widget.
\<close>

theorem limit_clause_always_present:
  assumes "limit_min_value \<le> limit" and "limit \<le> limit_max_value"
  shows "has_limit (sql_preview pf metric filters group_by limit) (nat limit) \<and>
         suffix (''\<newline>LIMIT '' @ str_nat (nat limit) @ '';\<newline>'')
           (sql_preview pf metric filters group_by limit) \<and>
         1 \<le> nat limit \<and> nat limit \<le> 100000"
proof -
  have pos: "\<not> limit < 0" "1 \<le> nat limit" "nat limit \<le> 100000"
    using assms by (simp_all add: limit_min_value_def limit_max_value_def)
  have nl: "\<forall>c\<in>set ''\<newline>''. isspace c"
    by (simp add: isspace_def)
  have "has_limit (sql_preview pf metric filters group_by limit) (nat limit)"
    by (rule has_limit_intro [where ws = "''\<newline>''" and
          pre = "''\<newline>SELECT '' @ select_sql metric @ ''\<newline>FROM data\<newline>'' @
                 where_sql (build_where pf filters) @ ''\<newline>'' @ group_sql group_by @ ''\<newline>''", OF _ nl])
       (simp add: sql_preview_def str_int_def pos)
  moreover have "suffix (''\<newline>LIMIT '' @ str_nat (nat limit) @ '';\<newline>'')
           (sql_preview pf metric filters group_by limit)"
    unfolding suffix_def
    by (rule exI [where x = "''\<newline>SELECT '' @ select_sql metric @ ''\<newline>FROM data\<newline>'' @
                 where_sql (build_where pf filters) @ ''\<newline>'' @ group_sql group_by"])
       (simp add: sql_preview_def str_int_def pos)
  ultimately show ?thesis using pos by simp
qed

theorem limit_clause_always_present_witness:
  \<open>limit_min_value \<le> 1000 \<and> 1000 \<le> limit_max_value \<and>
   sql_preview py_float ''Count rows'' [(''A'', ''='', ''5'')] [''A'', ''B''] 1000 =
     ''\<newline>SELECT COUNT(*) AS row_count\<newline>FROM data\<newline>WHERE CAST("A" AS DOUBLE) = 5\<newline>GROUP BY "A", "B"\<newline>LIMIT 1000;\<newline>'' \<and>
   has_limit (sql_preview py_float ''Count rows'' [(''A'', ''='', ''5'')] [''A'', ''B''] 1000) 1000 \<and>
   has_limit (sql_preview py_float ''Show rows'' [] [] 1) 1\<close>
proof -
  have lo: "limit_min_value \<le> 1000" and hi: "1000 \<le> limit_max_value"
    and lo1: "limit_min_value \<le> 1" and hi1: "1 \<le> limit_max_value"
    by (simp_all add: limit_min_value_def limit_max_value_def)
  have w: "build_where py_float [(''A'', ''='', ''5'')] = ''CAST(\"A\" AS DOUBLE) = 5''"
    by code_simp
  have e: "sql_preview py_float ''Count rows'' [(''A'', ''='', ''5'')] [''A'', ''B''] 1000 =
     ''\<newline>SELECT COUNT(*) AS row_count\<newline>FROM data\<newline>WHERE CAST(\"A\" AS DOUBLE) = 5\<newline>GROUP BY \"A\", \"B\"\<newline>LIMIT 1000;\<newline>''"
    by (simp add: sql_preview_def w select_sql_def where_sql_def group_sql_def str_int_def str_nat.simps)
  show ?thesis
    using lo hi e
      limit_clause_always_present [OF lo hi, of py_float "''Count rows''" "[(''A'', ''='', ''5'')]" "[''A'', ''B'']"]
      limit_clause_always_present [OF lo1 hi1, of py_float "''Show rows''" "[]" "[]"]
    by simp
qed

section \<open>Properties of the presets\<close>















end
